theory Spec2Isabelle
  imports Complex_Main "HOL-Library.Char_ord" "HOL-Library.List_Lexorder"
begin

section \<open>The QMT live-trading script: data\<close>

text \<open>
  The script of the notebook keeps its state in a namespace object \<open>A\<close> with two
  attributes, reads daily close prices from \<open>xtdata\<close>, and sends buy orders through
  \<open>xt_trader\<close>. Everything the script does to the outside (orders sent, lines printed,
  market-data requests, sleeping) is recorded in the state, so that a statement about
  "no order is sent" or "nothing is fetched" is a statement about a field.

  Prices are numpy floats in the script; they are idealised as real numbers here, so a
  price is never NaN or infinite. The decision compares a quotient with \<open>0.09\<close>; for the
  pair 10.00 / 11.00 the floating-point and the real computation give the same answer.
  They differ where rounding decides: at a rise of exactly nine percent (100 to 109) the
  floating-point quotient minus one is slightly above the double \<open>0.09\<close> and the script
  buys, while the real ratio equals \<open>9 / 100\<close> and is not above it. No theorem below
  is stated at such a pair.
\<close>

datatype py_error = IndexError | ZeroDivisionError

text \<open>What a call returns: normally, or by an uncaught exception. The state reached
  so far is kept in both cases, as Python keeps every mutation made before a raise.\<close>

datatype 'a result = Returned 'a | Raised py_error 'a

fun state_of :: "'a result \<Rightarrow> 'a" where
  "state_of (Returned s) = s"
| "state_of (Raised e s) = s"

fun error_of :: "'a result \<Rightarrow> py_error option" where
  "error_of (Returned s) = None"
| "error_of (Raised e s) = Some e"

text \<open>\<open>datetime.datetime.now()\<close>: only the time of day is ever used
  (\<open>strftime('%H%M%S')\<close>); a line printed with the whole value keeps the record.\<close>

record datetime =
  hour :: nat
  minute :: nat
  second :: nat

definition valid_datetime :: "datetime \<Rightarrow> bool" where
  "valid_datetime t \<longleftrightarrow> hour t < 24 \<and> minute t < 60 \<and> second t < 60"

definition seconds_of_day :: "datetime \<Rightarrow> nat" where
  "seconds_of_day t = hour t * 3600 + minute t * 60 + second t"

text \<open>A data frame of \<open>get_market_data_ex\<close>: rows in positional order, each with its
  index label (the bar's timestamp) and the values of its columns (\<open>['close']\<close>).\<close>

type_synonym row = "nat \<times> real list"
type_synonym frame = "row list"

text \<open>The \<open>data\<close> dictionary, as the list of its items in iteration order. A dictionary
  holds a key once; no theorem below needs that, so it is not assumed.\<close>

type_synonym market_data = "(string \<times> frame) list"

text \<open>Positional indexing as Python and \<open>iloc\<close> do it: a negative position counts
  from the end, a position outside the sequence raises \<open>IndexError\<close>.\<close>

definition positional :: "'a list \<Rightarrow> int \<Rightarrow> py_error + 'a" where
  "positional xs i =
     (if 0 \<le> i \<and> i < int (length xs) then Inr (xs ! nat i)
      else if i < 0 \<and> - i \<le> int (length xs) then Inr (xs ! nat (int (length xs) + i))
      else Inl IndexError)"

definition iloc :: "frame \<Rightarrow> int \<Rightarrow> int \<Rightarrow> py_error + real" where
  "iloc df r c =
     (case positional df r of
        Inl e \<Rightarrow> Inl e
      | Inr labelled \<Rightarrow> positional (snd labelled) c)"

text \<open>True division of Python floats: a zero divisor raises.\<close>

definition truediv :: "real \<Rightarrow> real \<Rightarrow> py_error + real" where
  "truediv a b = (if b = 0 then Inl ZeroDivisionError else Inr (a / b))"

text \<open>The arguments of \<open>xt_trader.order_stock_async\<close>, in the order of its parameters.\<close>

datatype order_type = STOCK_BUY | STOCK_SELL

datatype price_type = LATEST_PRICE | FIX_PRICE

record stock_account =
  account_id :: string
  account_type :: string

definition acc :: stock_account where
  "acc = \<lparr>account_id = ''2000128'', account_type = ''STOCK''\<rparr>"

record order_request =
  account :: stock_account
  stock_code :: string
  order_type :: order_type
  order_volume :: int
  price_type :: price_type
  price :: int
  strategy_name :: string
  order_remark :: string

text \<open>The objects the broker passes to the callbacks; only the attributes the handlers
  read are modelled. The arguments of \<open>on_cancel_error\<close>,
  \<open>on_cancel_order_stock_async_response\<close> and \<open>on_account_status\<close> are never looked at
  by the handlers and stay abstract (type variables).\<close>

record xt_order =
  xt_order_remark :: string

record xt_trade =
  xt_trade_remark :: string

record xt_order_error =
  xt_error_remark :: string
  xt_error_msg :: string

record xt_order_response =
  xt_response_remark :: string

text \<open>The lines the script prints. The Chinese wording of a line is replaced by a
  constructor; the values interpolated into the line are the constructor's arguments.\<close>

datatype log_line =
    Start_line
  | Connect_line int
  | Subscribe_line int
  | Buy_line datetime string
  | Window_closed_line datetime
  | Disconnected_line datetime
  | Order_callback_line datetime string
  | Trade_callback_line datetime string
  | Order_error_line string string
  | Async_response_line string
  | Function_name_line datetime string

record state =
  bought_list :: "string list"
  hsa :: "string list"
  orders :: "order_request list"
  stdout :: "log_line list"
  fetches :: nat
  slept :: nat

text \<open>The state when the module has been loaded: \<open>A.bought_list = []\<close>, \<open>A.hsa\<close> the
  sector list that \<open>xtdata\<close> returned, nothing sent or printed yet.\<close>

definition initial :: "string list \<Rightarrow> state" where
  "initial sector =
     \<lparr>bought_list = [], hsa = sector, orders = [], stdout = [], fetches = 0, slept = 0\<rparr>"

section \<open>The decision function\<close>

text \<open>The order that \<open>f\<close> sends for a stock.\<close>

definition buy_order :: "string \<Rightarrow> order_request" where
  "buy_order stock =
     \<lparr>account = acc, stock_code = stock, order_type = STOCK_BUY, order_volume = 100,
      price_type = LATEST_PRICE, price = - 1, strategy_name = ''strategy_name'',
      order_remark = stock\<rparr>"

text \<open>The conditional expression
  \<open>cuurent_price / pre_price - 1 if pre_price > 0 else 0\<close>.\<close>

definition ratio_of :: "real \<Rightarrow> real \<Rightarrow> py_error + real" where
  "ratio_of cuurent_price pre_price =
     (if pre_price > 0 then
        (case truediv cuurent_price pre_price of
           Inl e \<Rightarrow> Inl e
         | Inr q \<Rightarrow> Inr (q - 1))
      else Inr 0)"

text \<open>
  One pass through the body of \<open>for stock in data\<close>. The broker is the function
  \<open>xt_trader\<close> from a request to the sequence number \<open>order_stock_async\<close> returns for it
  (positive when the request was sent, \<open>-1\<close> when it failed); the script binds the number
  to \<open>async_seq\<close> and never reads it.
\<close>

definition f_body ::
  "(order_request \<Rightarrow> int) \<Rightarrow> datetime \<Rightarrow> string \<Rightarrow> frame \<Rightarrow> state \<Rightarrow> state result" where
  "f_body xt_trader now stock df s =
     (if stock \<notin> set (hsa s) then Returned s
      else
        (case iloc df (- 1) 0 of
           Inl e \<Rightarrow> Raised e s
         | Inr cuurent_price \<Rightarrow>
        (case iloc df (- 2) 0 of
           Inl e \<Rightarrow> Raised e s
         | Inr pre_price \<Rightarrow>
        (case ratio_of cuurent_price pre_price of
           Inl e \<Rightarrow> Raised e s
         | Inr ratio \<Rightarrow>
             if ratio > 9 / 100 \<and> stock \<notin> set (bought_list s) then
               (let s1 = s\<lparr>stdout := stdout s @ [Buy_line now stock]\<rparr>;
                    async_seq = xt_trader (buy_order stock);
                    s2 = s1\<lparr>orders := orders s1 @ [buy_order stock]\<rparr>
                in Returned (s2\<lparr>bought_list := bought_list s2 @ [stock]\<rparr>))
             else Returned s))))"

fun f_for ::
  "(order_request \<Rightarrow> int) \<Rightarrow> datetime \<Rightarrow> market_data \<Rightarrow> state \<Rightarrow> state result" where
  "f_for xt_trader now [] s = Returned s"
| "f_for xt_trader now ((stock, df) # rest) s =
     (case f_body xt_trader now stock df s of
        Raised e s' \<Rightarrow> Raised e s'
      | Returned s' \<Rightarrow> f_for xt_trader now rest s')"

text \<open>\<open>f(data)\<close>: the clock is read once, then the loop runs.\<close>

definition f ::
  "(order_request \<Rightarrow> int) \<Rightarrow> datetime \<Rightarrow> market_data \<Rightarrow> state \<Rightarrow> state result" where
  "f xt_trader now data s = f_for xt_trader now data s"

section \<open>The broker callbacks\<close>

text \<open>Each handler of \<open>MyXtQuantTraderCallback\<close> prints one line. The handlers that
  print \<open>datetime.datetime.now()\<close> take the clock reading as an argument.\<close>

definition print_line :: "log_line \<Rightarrow> state \<Rightarrow> state" where
  "print_line l s = s\<lparr>stdout := stdout s @ [l]\<rparr>"

definition on_disconnected :: "datetime \<Rightarrow> state \<Rightarrow> state" where
  "on_disconnected now s = print_line (Disconnected_line now) s"

definition on_stock_order :: "datetime \<Rightarrow> xt_order \<Rightarrow> state \<Rightarrow> state" where
  "on_stock_order now order s = print_line (Order_callback_line now (xt_order_remark order)) s"

definition on_stock_trade :: "datetime \<Rightarrow> xt_trade \<Rightarrow> state \<Rightarrow> state" where
  "on_stock_trade now trade s = print_line (Trade_callback_line now (xt_trade_remark trade)) s"

definition on_order_error :: "xt_order_error \<Rightarrow> state \<Rightarrow> state" where
  "on_order_error order_error s =
     print_line (Order_error_line (xt_error_remark order_error) (xt_error_msg order_error)) s"

definition on_cancel_error :: "datetime \<Rightarrow> 'c \<Rightarrow> state \<Rightarrow> state" where
  "on_cancel_error now cancel_error s = print_line (Function_name_line now ''on_cancel_error'') s"

definition on_order_stock_async_response :: "xt_order_response \<Rightarrow> state \<Rightarrow> state" where
  "on_order_stock_async_response response s =
     print_line (Async_response_line (xt_response_remark response)) s"

definition on_cancel_order_stock_async_response :: "datetime \<Rightarrow> 'r \<Rightarrow> state \<Rightarrow> state" where
  "on_cancel_order_stock_async_response now response s =
     print_line (Function_name_line now ''on_cancel_order_stock_async_response'') s"

definition on_account_status :: "datetime \<Rightarrow> 'a \<Rightarrow> state \<Rightarrow> state" where
  "on_account_status now status s = print_line (Function_name_line now ''on_account_status'') s"

text \<open>A push of the broker, and its delivery to the registered callback object.\<close>

datatype ('c, 'r, 'a) push =
    Disconnected
  | Stock_order xt_order
  | Stock_trade xt_trade
  | Order_error xt_order_error
  | Cancel_error 'c
  | Order_stock_async_response xt_order_response
  | Cancel_order_stock_async_response 'r
  | Account_status 'a

fun deliver :: "datetime \<Rightarrow> ('c, 'r, 'a) push \<Rightarrow> state \<Rightarrow> state" where
  "deliver now Disconnected s = on_disconnected now s"
| "deliver now (Stock_order order) s = on_stock_order now order s"
| "deliver now (Stock_trade trade) s = on_stock_trade now trade s"
| "deliver now (Order_error order_error) s = on_order_error order_error s"
| "deliver now (Cancel_error cancel_error) s = on_cancel_error now cancel_error s"
| "deliver now (Order_stock_async_response response) s = on_order_stock_async_response response s"
| "deliver now (Cancel_order_stock_async_response response) s =
     on_cancel_order_stock_async_response now response s"
| "deliver now (Account_status status) s = on_account_status now status s"

section \<open>The polling loop and the end of the script\<close>

text \<open>\<open>now.strftime('%H%M%S')\<close>: three fields of two decimal digits.\<close>

definition two_digits :: "nat \<Rightarrow> string" where
  "two_digits n = [char_of (48 + n div 10), char_of (48 + n mod 10)]"

definition strftime_HMS :: "datetime \<Rightarrow> string" where
  "strftime_HMS t = two_digits (hour t) @ two_digits (minute t) @ two_digits (second t)"

text \<open>The chained comparison \<open>'093000' <= now_time < '150000'\<close>, on strings.\<close>

definition in_window :: "string \<Rightarrow> bool" where
  "in_window now_time \<longleftrightarrow> ''093000'' \<le> now_time \<and> now_time < ''150000''"

text \<open>
  What the outside supplies to one turn of \<open>while True\<close>: the clock reading at the top of
  the loop, the dictionary \<open>get_market_data_ex\<close> would return, and the clock reading
  inside \<open>f\<close>. The loop has no bound of its own; the list of turns is its fuel, and a
  list used up with the loop still going is the result \<open>Still_polling\<close>.
\<close>

record turn =
  clock :: datetime
  market :: market_data
  clock_f :: datetime

datatype 'a loop_result = Loop_exited 'a | Uncaught py_error 'a | Still_polling 'a

fun loop_state :: "'a loop_result \<Rightarrow> 'a" where
  "loop_state (Loop_exited s) = s"
| "loop_state (Uncaught e s) = s"
| "loop_state (Still_polling s) = s"

fun polling_loop :: "(order_request \<Rightarrow> int) \<Rightarrow> turn list \<Rightarrow> state \<Rightarrow> state loop_result" where
  "polling_loop xt_trader [] s = Still_polling s"
| "polling_loop xt_trader (t # ts) s =
     (let now = clock t; now_time = strftime_HMS now in
      if \<not> in_window now_time then
        Loop_exited (print_line (Window_closed_line now) s)
      else
        (let s1 = s\<lparr>fetches := fetches s + 1\<rparr> in
         case f xt_trader (clock_f t) (market t) s1 of
           Raised e s2 \<Rightarrow> Uncaught e s2
         | Returned s2 \<Rightarrow> polling_loop xt_trader ts (s2\<lparr>slept := slept s2 + 3\<rparr>)))"

text \<open>
  \<open>xt_trader.run_forever()\<close> follows the loop. The script's comments say what it does:
  it keeps the main thread from exiting, and the line after it is not reached unless
  the call is commented out. It is the loop that never ends; its value is \<open>None\<close>.
\<close>

partial_function (option) run_forever :: "state \<Rightarrow> state option" where
  "run_forever s = run_forever s"

text \<open>How the process ends: with an exit status, or not at all.\<close>

datatype ending = Exit_status int | Never_exits | Not_yet

text \<open>
  The \<open>__main__\<close> block from \<open>print("start")\<close> on. \<open>connect_result\<close> and
  \<open>subscribe_result\<close> are what the broker answered; the script prints them and goes on
  whatever they are. The calls before the loop that set up the session and download
  and subscribe the quotes of \<open>code_list\<close> change none of the fields of the state and are
  left out. Run as a script, an uncaught exception ends the interpreter with status 1;
  falling off the end (after \<open>interact()\<close>) would end it with status 0.
\<close>

definition main_loop_state ::
  "(order_request \<Rightarrow> int) \<Rightarrow> int \<Rightarrow> int \<Rightarrow> turn list \<Rightarrow> state \<Rightarrow> state loop_result" where
  "main_loop_state xt_trader connect_result subscribe_result ts s =
     polling_loop xt_trader ts
       (print_line (Subscribe_line subscribe_result)
         (print_line (Connect_line connect_result) (print_line Start_line s)))"

definition main ::
  "(order_request \<Rightarrow> int) \<Rightarrow> int \<Rightarrow> int \<Rightarrow> turn list \<Rightarrow> state \<Rightarrow> ending" where
  "main xt_trader connect_result subscribe_result ts s =
     (case main_loop_state xt_trader connect_result subscribe_result ts s of
        Still_polling s' \<Rightarrow> Not_yet
      | Uncaught e s' \<Rightarrow> Exit_status 1
      | Loop_exited s' \<Rightarrow>
          (case run_forever s' of
             None \<Rightarrow> Never_exits
           | Some s'' \<Rightarrow> Exit_status 0))"

section \<open>Concrete inputs\<close>

text \<open>The subscription list of the script, two brokers (one that always reports the
  request as sent, one that always reports failure), and some frames and clock readings
  on which the theorems below are evaluated.\<close>

definition code_list :: "string list" where
  "code_list = [''600000.SH'', ''000001.SZ'']"

definition always_sent :: "order_request \<Rightarrow> int" where
  "always_sent request = 1"

definition never_sent :: "order_request \<Rightarrow> int" where
  "never_sent request = - 1"

definition rising_frame :: frame where
  "rising_frame = [(20240102, [10]), (20240103, [11])]"

definition flat_frame :: frame where
  "flat_frame = [(20240102, [10]), (20240103, [10])]"

definition one_row_frame :: frame where
  "one_row_frame = [(20240103, [11])]"

definition unordered_frame :: frame where
  "unordered_frame = [(20240103, [10]), (20240102, [11])]"

definition mid_session :: datetime where
  "mid_session = \<lparr>hour = 10, minute = 0, second = 0\<rparr>"

definition after_close :: datetime where
  "after_close = \<lparr>hour = 15, minute = 0, second = 1\<rparr>"

definition closing_turn :: turn where
  "closing_turn = \<lparr>clock = after_close, market = [(''600000.SH'', rising_frame)], clock_f = after_close\<rparr>"

definition trading_turn :: turn where
  "trading_turn = \<lparr>clock = mid_session, market = [(''600000.SH'', rising_frame)], clock_f = mid_session\<rparr>"

text \<open>Two cancel-error objects that carry the remark of the order whose cancel failed.
  The cancel-error handler is defined for an argument of any type; these are the
  arguments it is given in the evaluation below.\<close>

record xt_cancel_error =
  xt_cancel_remark :: string
  xt_cancel_msg :: string

definition cancel_failed_sh :: xt_cancel_error where
  "cancel_failed_sh = \<lparr>xt_cancel_remark = ''600000.SH'', xt_cancel_msg = ''cancel failed''\<rparr>"

definition cancel_failed_sz :: xt_cancel_error where
  "cancel_failed_sz = \<lparr>xt_cancel_remark = ''000001.SZ'', xt_cancel_msg = ''cancel failed''\<rparr>"

definition rising_data :: market_data where
  "rising_data = [(''600000.SH'', rising_frame)]"

definition short_then_rising :: market_data where
  "short_then_rising = [(''000001.SZ'', one_row_frame), (''600000.SH'', rising_frame)]"

definition unordered_data :: market_data where
  "unordered_data = [(''600000.SH'', unordered_frame)]"

section \<open>The comparison of time strings\<close>

lemma char_eq_nat: "(c = d) = ((of_char c :: nat) = of_char d)"
  by simp

lemma of_char_lits:
  "of_char CHR ''0'' = (48::nat)" "of_char CHR ''1'' = (49::nat)" "of_char CHR ''3'' = (51::nat)"
  "of_char CHR ''5'' = (53::nat)" "of_char CHR ''9'' = (57::nat)"
  by simp_all

lemma of_char_digit: "d < 10 \<Longrightarrow> of_char (char_of (48 + d)) = (48 + d :: nat)"
  by (simp add: of_char_of)

lemma digits_window:
  fixes a b c d e g :: nat
  assumes d: "a < 10" "b < 10" "c < 10" "d < 10" "e < 10" "g < 10"
  shows "in_window [char_of (48 + a), char_of (48 + b), char_of (48 + c),
                    char_of (48 + d), char_of (48 + e), char_of (48 + g)]
     \<longleftrightarrow> (1 \<le> a \<or> b = 9 \<and> 3 \<le> c) \<and> (a = 0 \<or> a = 1 \<and> b < 5)"
  unfolding in_window_def list_le_def
  apply (simp only: Cons_less_Cons list.inject less_char_def char_eq_nat [of "_::char"]
      of_char_lits of_char_digit [OF d(1)] of_char_digit [OF d(2)] of_char_digit [OF d(3)]
      of_char_digit [OF d(4)] of_char_digit [OF d(5)] of_char_digit [OF d(6)]
      not_less_Nil simp_thms)
  using d apply simp
  apply arith
  done

lemma hms_lower:
  fixes h m s :: nat
  assumes "m < 60" "s < 60"
  shows "(1 \<le> h div 10 \<or> h mod 10 = 9 \<and> 3 \<le> m div 10) \<longleftrightarrow> 34200 \<le> h * 3600 + m * 60 + s"
proof -
  have a: "1 \<le> h div 10 \<longleftrightarrow> 10 \<le> h" by arith
  have b: "3 \<le> m div 10 \<longleftrightarrow> 30 \<le> m" by arith
  have c: "h < 10 \<Longrightarrow> h mod 10 = h" by simp
  have "(10 \<le> h \<or> h mod 10 = 9 \<and> 30 \<le> m) \<longleftrightarrow> (10 \<le> h \<or> h = 9 \<and> 30 \<le> m)"
    using c by (cases "h < 10") auto
  also have "\<dots> \<longleftrightarrow> 34200 \<le> h * 3600 + m * 60 + s"
    using assms by arith
  finally show ?thesis by (simp only: a b)
qed

lemma hms_upper:
  fixes h m s :: nat
  assumes "m < 60" "s < 60"
  shows "(h div 10 = 0 \<or> h div 10 = 1 \<and> h mod 10 < 5) \<longleftrightarrow> h * 3600 + m * 60 + s < 54000"
proof -
  have "(h div 10 = 0 \<or> h div 10 = 1 \<and> h mod 10 < 5) \<longleftrightarrow> h < 15" by arith
  also have "\<dots> \<longleftrightarrow> h * 3600 + m * 60 + s < 54000"
    using assms by arith
  finally show ?thesis .
qed

lemma in_window_seconds:
  assumes "valid_datetime t"
  shows "in_window (strftime_HMS t) \<longleftrightarrow> 34200 \<le> seconds_of_day t \<and> seconds_of_day t < 54000"
proof -
  have b: "hour t < 24" "minute t < 60" "second t < 60"
    using assms by (simp_all add: valid_datetime_def)
  have d: "hour t div 10 < 10" "hour t mod 10 < 10" "minute t div 10 < 10"
    "minute t mod 10 < 10" "second t div 10 < 10" "second t mod 10 < 10"
    using b by simp_all
  have "in_window (strftime_HMS t) \<longleftrightarrow>
      (1 \<le> hour t div 10 \<or> hour t mod 10 = 9 \<and> 3 \<le> minute t div 10) \<and>
      (hour t div 10 = 0 \<or> hour t div 10 = 1 \<and> hour t mod 10 < 5)"
    unfolding strftime_HMS_def two_digits_def append_Cons append_Nil
    by (rule digits_window [OF d])
  then show ?thesis
    unfolding seconds_of_day_def
    by (simp only: hms_lower [OF b(2) b(3)] hms_upper [OF b(2) b(3)])
qed

section \<open>Printing and the callbacks\<close>

lemma print_line_fields [simp]:
  "bought_list (print_line l s) = bought_list s"
  "hsa (print_line l s) = hsa s"
  "orders (print_line l s) = orders s"
  "fetches (print_line l s) = fetches s"
  "slept (print_line l s) = slept s"
  "stdout (print_line l s) = stdout s @ [l]"
  by (simp_all add: print_line_def)

lemmas handler_defs =
  on_disconnected_def on_stock_order_def on_stock_trade_def on_order_error_def
  on_cancel_error_def on_order_stock_async_response_def
  on_cancel_order_stock_async_response_def on_account_status_def

lemma deliver_prints: "\<exists>l. deliver now p s = print_line l s"
  by (cases p) (auto simp: handler_defs)

lemma deliver_fields [simp]:
  "bought_list (deliver now p s) = bought_list s"
  "hsa (deliver now p s) = hsa s"
  "orders (deliver now p s) = orders s"
  "fetches (deliver now p s) = fetches s"
  "slept (deliver now p s) = slept s"
  using deliver_prints [of now p s] by auto

text \<open>
  Claim C4, as stated, fails in one clause: the cancel-error handler does not log the
  remark of the order. It prints the time and its own name, and the line is the same
  for two cancel errors of orders with different remarks.
\<close>

theorem cancel_error_line_has_no_remark:
  "xt_cancel_remark cancel_failed_sh = ''600000.SH'' \<and>
   xt_cancel_remark cancel_failed_sz = ''000001.SZ'' \<and>
   stdout (deliver mid_session
       (Cancel_error cancel_failed_sh :: (xt_cancel_error, unit, unit) push) (initial code_list)) =
     [Function_name_line mid_session ''on_cancel_error''] \<and>
   stdout (deliver mid_session
       (Cancel_error cancel_failed_sz :: (xt_cancel_error, unit, unit) push) (initial code_list)) =
     [Function_name_line mid_session ''on_cancel_error'']"
  by (simp add: cancel_failed_sh_def cancel_failed_sz_def on_cancel_error_def initial_def)

text \<open>
  Claim C4, amended. Whatever the broker pushes (disconnect, order report, trade report,
  order error, cancel error, asynchronous order response, cancel response, account
  status) and whatever the argument, the handler appends one line to the output and
  changes nothing else: the open-position list \<open>bought_list\<close>, the universe, the orders
  sent and the loop's counters stay as they were. The line of the order-error handler,
  the one called for a rejected or failed order, carries the remark and the message of
  that order; the order, trade and asynchronous-response handlers print the remark too.
  The cancel-error, cancel-response and account-status handlers print the time and
  their own name, and nothing of their argument.
\<close>

theorem callbacks_only_log:
  "(\<exists>l. deliver now p s = s\<lparr>stdout := stdout s @ [l]\<rparr>) \<and>
   deliver now (Order_error order_error) s =
     s\<lparr>stdout := stdout s @ [Order_error_line (xt_error_remark order_error) (xt_error_msg order_error)]\<rparr> \<and>
   deliver now (Stock_order order) s =
     s\<lparr>stdout := stdout s @ [Order_callback_line now (xt_order_remark order)]\<rparr> \<and>
   deliver now (Stock_trade trade) s =
     s\<lparr>stdout := stdout s @ [Trade_callback_line now (xt_trade_remark trade)]\<rparr> \<and>
   deliver now (Order_stock_async_response response) s =
     s\<lparr>stdout := stdout s @ [Async_response_line (xt_response_remark response)]\<rparr> \<and>
   deliver now Disconnected s = s\<lparr>stdout := stdout s @ [Disconnected_line now]\<rparr> \<and>
   deliver now (Cancel_error cancel_error) s =
     s\<lparr>stdout := stdout s @ [Function_name_line now ''on_cancel_error'']\<rparr> \<and>
   deliver now (Cancel_order_stock_async_response cancel_response) s =
     s\<lparr>stdout := stdout s @ [Function_name_line now ''on_cancel_order_stock_async_response'']\<rparr> \<and>
   deliver now (Account_status status) s =
     s\<lparr>stdout := stdout s @ [Function_name_line now ''on_account_status'']\<rparr> \<and>
   bought_list (deliver now p s) = bought_list s \<and>
   hsa (deliver now p s) = hsa s \<and>
   orders (deliver now p s) = orders s \<and>
   fetches (deliver now p s) = fetches s \<and>
   slept (deliver now p s) = slept s"
proof -
  have "\<exists>l. deliver now p s = s\<lparr>stdout := stdout s @ [l]\<rparr>"
    using deliver_prints [of now p s] by (simp add: print_line_def)
  then show ?thesis
    by (simp add: handler_defs print_line_def)
qed

section \<open>The trading window\<close>

text \<open>
  Claim C3. A turn of the polling loop whose clock reading is outside the window
  09:30:00 to 15:00:00 (before 09:30:00, or at or after 15:00:00; 15:00:01 in
  particular) ends the loop at once: one line is printed, and neither the market data
  of that turn nor any later turn is used. No market data is fetched, \<open>f\<close> is not
  called, no order is sent.
\<close>

theorem window_closed_exits:
  assumes "valid_datetime (clock t)"
    and "seconds_of_day (clock t) < 34200 \<or> 54000 \<le> seconds_of_day (clock t)"
  shows "polling_loop xt_trader (t # ts) s =
           Loop_exited (s\<lparr>stdout := stdout s @ [Window_closed_line (clock t)]\<rparr>) \<and>
         orders (loop_state (polling_loop xt_trader (t # ts) s)) = orders s \<and>
         fetches (loop_state (polling_loop xt_trader (t # ts) s)) = fetches s \<and>
         bought_list (loop_state (polling_loop xt_trader (t # ts) s)) = bought_list s"
proof -
  have "\<not> in_window (strftime_HMS (clock t))"
    using assms by (auto simp: in_window_seconds)
  then show ?thesis
    by (simp add: print_line_def)
qed

theorem window_closed_exits_witness:
  "valid_datetime (clock closing_turn) \<and>
   54000 \<le> seconds_of_day (clock closing_turn) \<and>
   polling_loop always_sent [closing_turn, trading_turn] (initial code_list) =
     Loop_exited ((initial code_list)\<lparr>stdout := [Window_closed_line after_close]\<rparr>) \<and>
   orders (loop_state (polling_loop always_sent [closing_turn, trading_turn] (initial code_list))) = []"
  using window_closed_exits [of closing_turn always_sent "[trading_turn]" "initial code_list"]
  by (simp add: closing_turn_def after_close_def valid_datetime_def seconds_of_day_def initial_def)

section \<open>General facts about the decision function\<close>

lemma positional_error: "positional xs i = Inl e \<Longrightarrow> e = IndexError"
  by (simp add: positional_def split: if_splits)

lemma iloc_error: "iloc df r c = Inl e \<Longrightarrow> e = IndexError"
  by (auto simp: iloc_def split: sum.splits dest: positional_error)

lemma ratio_of_value: "ratio_of c p = Inr (if p > 0 then c / p - 1 else 0)"
  by (simp add: ratio_of_def truediv_def)

text \<open>The state after the three statements of the buying branch.\<close>

lemma f_body_disj:
  "f_body xt now stock df s = Returned s \<or>
   f_body xt now stock df s = Raised IndexError s \<and> stock \<in> set (hsa s) \<or>
   f_body xt now stock df s =
        Returned (s\<lparr>stdout := stdout s @ [Buy_line now stock],
                    orders := orders s @ [buy_order stock],
                    bought_list := bought_list s @ [stock]\<rparr>) \<and>
   stock \<in> set (hsa s) \<and> stock \<notin> set (bought_list s)"
  unfolding f_body_def Let_def ratio_of_value
  by (auto split: sum.splits dest: iloc_error)

lemma f_body_cases:
  obtains
    (skip) "f_body xt now stock df s = Returned s"
  | (raise) "f_body xt now stock df s = Raised IndexError s" "stock \<in> set (hsa s)"
  | (buy) "f_body xt now stock df s =
        Returned (s\<lparr>stdout := stdout s @ [Buy_line now stock],
                    orders := orders s @ [buy_order stock],
                    bought_list := bought_list s @ [stock]\<rparr>)"
      "stock \<in> set (hsa s)" "stock \<notin> set (bought_list s)"
  using f_body_disj [of xt now stock df s] by blast

lemma f_body_broker: "f_body xt now stock df s = f_body xt' now stock df s"
  unfolding f_body_def Let_def ..

lemma f_for_broker: "f_for xt now data s = f_for xt' now data s"
proof (induction data arbitrary: s)
  case Nil
  show ?case by simp
next
  case (Cons a data)
  obtain stock df where a: "a = (stock, df)" by (cases a)
  show ?case
    unfolding a f_for.simps f_body_broker [of xt now stock df s xt']
    by (simp add: Cons.IH split: result.splits)
qed

lemma f_for_effect:
  "\<exists>new. state_of (f_for xt now data s) =
            s\<lparr>stdout := stdout s @ map (Buy_line now) new,
              orders := orders s @ map buy_order new,
              bought_list := bought_list s @ new\<rparr>
     \<and> distinct new \<and> set new \<inter> set (bought_list s) = {}
     \<and> set new \<subseteq> set (hsa s) \<and> set new \<subseteq> fst ` set data"
proof (induction data arbitrary: s)
  case Nil
  have "state_of (f_for xt now [] s) =
      s\<lparr>stdout := stdout s @ map (Buy_line now) [], orders := orders s @ map buy_order [],
        bought_list := bought_list s @ []\<rparr>"
    by simp
  then show ?case by (intro exI [of _ "[]"]) simp
next
  case (Cons a data)
  obtain stock df where a: "a = (stock, df)" by (cases a)
  show ?case
  proof (cases rule: f_body_cases [of xt now stock df s])
    case skip
    obtain new where new: "state_of (f_for xt now data s) =
            s\<lparr>stdout := stdout s @ map (Buy_line now) new,
              orders := orders s @ map buy_order new,
              bought_list := bought_list s @ new\<rparr>"
      "distinct new" "set new \<inter> set (bought_list s) = {}"
      "set new \<subseteq> set (hsa s)" "set new \<subseteq> fst ` set data"
      using Cons.IH [of s] by blast
    show ?thesis
      using new by (intro exI [of _ new]) (auto simp: a skip)
  next
    case raise
    show ?thesis
      by (intro exI [of _ "[]"]) (simp add: a raise)
  next
    case buy
    let ?s1 = "s\<lparr>stdout := stdout s @ [Buy_line now stock],
                    orders := orders s @ [buy_order stock],
                    bought_list := bought_list s @ [stock]\<rparr>"
    obtain new where new: "state_of (f_for xt now data ?s1) =
            ?s1\<lparr>stdout := stdout ?s1 @ map (Buy_line now) new,
              orders := orders ?s1 @ map buy_order new,
              bought_list := bought_list ?s1 @ new\<rparr>"
      "distinct new" "set new \<inter> set (bought_list ?s1) = {}"
      "set new \<subseteq> set (hsa ?s1)" "set new \<subseteq> fst ` set data"
      using Cons.IH [of ?s1] by blast
    show ?thesis
      using new buy(2,3) by (intro exI [of _ "stock # new"]) (auto simp: a buy(1))
  qed
qed

lemma f_for_error: "error_of (f_for xt now data s) = Some e \<Longrightarrow> e = IndexError"
proof (induction data arbitrary: s)
  case Nil
  then show ?case by simp
next
  case (Cons a data)
  obtain stock df where a: "a = (stock, df)" by (cases a)
  from Cons.prems show ?case
    by (cases rule: f_body_cases [of xt now stock df s]) (auto simp: a dest: Cons.IH)
qed

lemma f_for_append:
  "f_for xt now (pre @ post) s =
     (case f_for xt now pre s of
        Raised e s' \<Rightarrow> Raised e s'
      | Returned s' \<Rightarrow> f_for xt now post s')"
  by (induction pre arbitrary: s) (auto split: result.splits)

lemma f_for_hsa: "hsa (state_of (f_for xt now data s)) = hsa s"
  using f_for_effect [of xt now data s] by auto

lemma f_for_bought_mono: "set (bought_list s) \<subseteq> set (bought_list (state_of (f_for xt now data s)))"
  using f_for_effect [of xt now data s] by auto

text \<open>A second pass over the same data, from any state that holds at least the
  instruments the first pass left in the list, changes nothing.\<close>

lemma f_body_rerun:
  assumes "hsa s2 = hsa s"
    and "set (bought_list (state_of (f_body xt now stock df s))) \<subseteq> set (bought_list s2)"
  shows "f_body xt2 now2 stock df s2 = Returned s2 \<or>
         f_body xt2 now2 stock df s2 = Raised IndexError s2"
  using assms
  unfolding f_body_def Let_def ratio_of_value
  by (auto split: sum.splits if_splits dest: iloc_error)

lemma f_body_raise_again:
  assumes "hsa s2 = hsa s" and "f_body xt now stock df s = Raised e s'"
  shows "f_body xt2 now2 stock df s2 = Raised IndexError s2"
  using assms
  unfolding f_body_def Let_def ratio_of_value
  by (auto split: sum.splits if_splits dest: iloc_error)

lemma f_for_rerun:
  assumes "hsa s2 = hsa s"
    and "set (bought_list (state_of (f_for xt now data s))) \<subseteq> set (bought_list s2)"
  shows "state_of (f_for xt2 now2 data s2) = s2"
  using assms
proof (induction data arbitrary: s)
  case Nil
  show ?case by simp
next
  case (Cons a data)
  obtain stock df where a: "a = (stock, df)" by (cases a)
  show ?case
  proof (cases "f_body xt now stock df s")
    case (Raised e s')
    show ?thesis
      by (simp add: a f_body_raise_again [OF Cons.prems(1) Raised])
  next
    case (Returned s')
    have s': "hsa s' = hsa s" "set (bought_list s) \<subseteq> set (bought_list s')"
      using Returned by (cases rule: f_body_cases [of xt now stock df s]; auto)+
    have sub: "set (bought_list (state_of (f_for xt now data s'))) \<subseteq> set (bought_list s2)"
      using Cons.prems(2) by (simp add: a Returned)
    have ih: "state_of (f_for xt2 now2 data s2) = s2"
      using Cons.IH [of s'] Cons.prems(1) s'(1) sub by simp
    have "set (bought_list (state_of (f_body xt now stock df s))) \<subseteq> set (bought_list s2)"
      using sub f_for_bought_mono [of s' xt now data] by (auto simp: Returned)
    from f_body_rerun [OF Cons.prems(1) this, of xt2 now2] show ?thesis
      using ih by (auto simp: a)
  qed
qed

text \<open>The index labels of the rows play no part.\<close>

lemma positional_map: "positional (map g xs) i = map_sum id g (positional xs i)"
proof -
  have "nat (int (length xs) + i) < length xs" if "i < 0" "- i \<le> int (length xs)"
    using that by linarith
  moreover have "nat i < length xs" if "0 \<le> i" "i < int (length xs)"
    using that by linarith
  ultimately show ?thesis
    by (simp add: positional_def)
qed

lemma iloc_labels:
  "map snd df = map snd df' \<Longrightarrow> iloc df r c = iloc df' r c"
proof -
  assume eq: "map snd df = map snd df'"
  have "iloc d r c = (case positional (map snd d) r of Inl e \<Rightarrow> Inl e | Inr vs \<Rightarrow> positional vs c)" for d :: frame
    by (simp add: iloc_def positional_map split: sum.splits)
  then show ?thesis using eq by simp
qed

lemma f_body_labels:
  "map snd df = map snd df' \<Longrightarrow> f_body xt now stock df s = f_body xt now stock df' s"
proof -
  assume eq: "map snd df = map snd df'"
  show ?thesis
    unfolding f_body_def iloc_labels [OF eq] ..
qed

lemma f_for_labels:
  "list_all2 (\<lambda>a b. fst a = fst b \<and> map snd (snd a) = map snd (snd b)) data data' \<Longrightarrow>
   f_for xt now data s = f_for xt now data' s"
proof (induction data data' arbitrary: s rule: list_all2_induct)
  case Nil
  show ?case by simp
next
  case (Cons a data b data')
  obtain stock df where a: "a = (stock, df)" by (cases a)
  obtain stock' df' where b: "b = (stock', df')" by (cases b)
  have eq: "stock' = stock" "map snd df = map snd df'" using Cons.hyps(1) a b by auto
  show ?case
    unfolding a b eq(1) f_for.simps f_body_labels [OF eq(2)]
    by (simp add: Cons.IH split: result.splits)
qed

lemma f_for_universe:
  "f_for xt now data s = f_for xt now (filter (\<lambda>a. fst a \<in> set (hsa s)) data) s"
proof (induction data arbitrary: s)
  case Nil
  show ?case by simp
next
  case (Cons a data)
  obtain stock df where a: "a = (stock, df)" by (cases a)
  show ?case
  proof (cases "stock \<in> set (hsa s)")
    case False
    then have "f_body xt now stock df s = Returned s" by (simp add: f_body_def)
    then show ?thesis using False Cons.IH [of s] by (simp add: a)
  next
    case True
    show ?thesis
    proof (cases rule: f_body_cases [of xt now stock df s])
      case skip
      then show ?thesis using True Cons.IH [of s] by (simp add: a)
    next
      case raise
      then show ?thesis using True by (simp add: a)
    next
      case buy
      then show ?thesis using True Cons.IH by (simp add: a)
    qed
  qed
qed

section \<open>General facts about the polling loop\<close>

text \<open>
  Two invariants of a run: the orders sent are the buy orders of the instruments of
  \<open>bought_list\<close>, in the same order, and that list has no duplicates; and the list stays
  within the universe. The callbacks run on the broker's thread at any moment of a run;
  they touch neither list nor the orders (lemma \<open>deliver_fields\<close>), so the run is
  followed along the polling loop alone.
\<close>

lemma f_for_linked:
  assumes "orders s = map buy_order (bought_list s)" and "distinct (bought_list s)"
  shows "orders (state_of (f_for xt now data s)) = map buy_order (bought_list (state_of (f_for xt now data s)))"
    and "distinct (bought_list (state_of (f_for xt now data s)))"
  using f_for_effect [of xt now data s] assms by auto

lemma f_for_within_universe:
  assumes "set (bought_list s) \<subseteq> set (hsa s)"
  shows "set (bought_list (state_of (f_for xt now data s))) \<subseteq> set (hsa (state_of (f_for xt now data s)))"
  using f_for_effect [of xt now data s] assms by auto

lemma polling_loop_linked:
  assumes "orders s = map buy_order (bought_list s)" and "distinct (bought_list s)"
  shows "orders (loop_state (polling_loop xt ts s)) =
           map buy_order (bought_list (loop_state (polling_loop xt ts s))) \<and>
         distinct (bought_list (loop_state (polling_loop xt ts s)))"
  using assms
proof (induction ts arbitrary: s)
  case Nil
  then show ?case by simp
next
  case (Cons t ts)
  show ?case
  proof (cases "in_window (strftime_HMS (clock t))")
    case False
    then show ?thesis using Cons.prems by simp
  next
    case True
    let ?s1 = "s\<lparr>fetches := fetches s + 1\<rparr>"
    have s1: "orders ?s1 = map buy_order (bought_list ?s1)" "distinct (bought_list ?s1)"
      using Cons.prems by simp_all
    note after = f_for_linked [OF s1, of xt "clock_f t" "market t"]
    show ?thesis
    proof (cases "f_for xt (clock_f t) (market t) ?s1")
      case (Raised e s2)
      then show ?thesis using True after by (simp add: f_def)
    next
      case (Returned s2)
      have "orders (s2\<lparr>slept := slept s2 + 3\<rparr>) = map buy_order (bought_list (s2\<lparr>slept := slept s2 + 3\<rparr>))"
        "distinct (bought_list (s2\<lparr>slept := slept s2 + 3\<rparr>))"
        using after Returned by simp_all
      from Cons.IH [OF this] show ?thesis
        using True Returned by (simp add: f_def)
    qed
  qed
qed

lemma polling_loop_within_universe:
  assumes "set (bought_list s) \<subseteq> set (hsa s)"
  shows "set (bought_list (loop_state (polling_loop xt ts s))) \<subseteq>
         set (hsa (loop_state (polling_loop xt ts s)))"
  using assms
proof (induction ts arbitrary: s)
  case Nil
  then show ?case by simp
next
  case (Cons t ts)
  show ?case
  proof (cases "in_window (strftime_HMS (clock t))")
    case False
    then show ?thesis using Cons.prems by simp
  next
    case True
    let ?s1 = "s\<lparr>fetches := fetches s + 1\<rparr>"
    have s1: "set (bought_list ?s1) \<subseteq> set (hsa ?s1)"
      using Cons.prems by simp
    note after = f_for_within_universe [OF s1, of xt "clock_f t" "market t"]
    show ?thesis
    proof (cases "f_for xt (clock_f t) (market t) ?s1")
      case (Raised e s2)
      then show ?thesis using True after by (simp add: f_def)
    next
      case (Returned s2)
      have "set (bought_list (s2\<lparr>slept := slept s2 + 3\<rparr>)) \<subseteq> set (hsa (s2\<lparr>slept := slept s2 + 3\<rparr>))"
        using after Returned by simp
      from Cons.IH [OF this] show ?thesis
        using True Returned by (simp add: f_def)
    qed
  qed
qed

lemma script_run_linked:
  "orders (loop_state (main_loop_state xt cr sr ts (initial sector))) =
     map buy_order (bought_list (loop_state (main_loop_state xt cr sr ts (initial sector))))"
  "distinct (bought_list (loop_state (main_loop_state xt cr sr ts (initial sector))))"
  unfolding main_loop_state_def
  by (rule polling_loop_linked [THEN conjunct1] polling_loop_linked [THEN conjunct2]; simp add: initial_def)+

lemma buy_order_fields [simp]:
  "stock_code (buy_order stock) = stock"
  "order_remark (buy_order stock) = stock"
  "order_type (buy_order stock) = STOCK_BUY"
  "order_volume (buy_order stock) = 100"
  "price_type (buy_order stock) = LATEST_PRICE"
  by (simp_all add: buy_order_def)

lemma map_buy_order [simp]:
  "map order_remark (map buy_order xs) = xs"
  "map stock_code (map buy_order xs) = xs"
  by (simp_all add: comp_def)

lemma run_forever_never: "run_forever s = None"
proof (cases "run_forever s")
  case None
  then show ?thesis .
next
  case (Some s')
  then have False
    by (rule run_forever.raw_induct [where P = "\<lambda>_ _. False", rotated])
  then show ?thesis ..
qed

section \<open>Order remarks\<close>

text \<open>
  Claim C7. In a run of the script (the \<open>__main__\<close> block from a freshly loaded
  module, any broker, any sequence of clock readings and market data), the remark of
  every order sent is its instrument code, and no two orders sent have the same
  remark.
\<close>

theorem remarks_unique:
  "map order_remark (orders (loop_state (main_loop_state xt cr sr ts (initial sector)))) =
     map stock_code (orders (loop_state (main_loop_state xt cr sr ts (initial sector)))) \<and>
   distinct (map order_remark (orders (loop_state (main_loop_state xt cr sr ts (initial sector)))))"
proof -
  let ?s = "loop_state (main_loop_state xt cr sr ts (initial sector))"
  have "map order_remark (orders ?s) = bought_list ?s" "map stock_code (orders ?s) = bought_list ?s"
    by (simp_all only: script_run_linked(1) map_buy_order)
  then show ?thesis
    using script_run_linked(2) [of xt cr sr ts sector] by simp
qed

theorem remarks_unique_witness:
  "map order_remark (orders (loop_state
      (main_loop_state always_sent 0 0 [trading_turn, trading_turn, closing_turn] (initial code_list)))) =
     [''600000.SH''] \<and>
   distinct (map order_remark (orders (loop_state
      (main_loop_state always_sent 0 0 [trading_turn, trading_turn, closing_turn] (initial code_list)))))"
proof -
  have "in_window (strftime_HMS mid_session)" "\<not> in_window (strftime_HMS after_close)"
    by (simp_all add: in_window_seconds valid_datetime_def seconds_of_day_def mid_session_def after_close_def)
  then have "orders (loop_state
      (main_loop_state always_sent 0 0 [trading_turn, trading_turn, closing_turn] (initial code_list))) =
     [buy_order ''600000.SH'']"
    by (simp add: main_loop_state_def trading_turn_def closing_turn_def f_def f_body_def
        iloc_def positional_def ratio_of_value rising_frame_def initial_def code_list_def print_line_def)
  then show ?thesis
    using remarks_unique [of always_sent 0 0 "[trading_turn, trading_turn, closing_turn]" code_list]
    by simp
qed

lemma filter_buy_orders_absent:
  "stock \<notin> set new \<Longrightarrow> filter (\<lambda>r. stock_code r = stock) (map buy_order new) = []"
  by (induction new) auto

lemma filter_buy_orders_once:
  "distinct new \<Longrightarrow> stock \<in> set new \<Longrightarrow>
   filter (\<lambda>r. stock_code r = stock) (map buy_order new) = [buy_order stock]"
  by (induction new) (auto simp: filter_buy_orders_absent)

section \<open>No second order for an open instrument\<close>

text \<open>
  Claim C2. For an instrument that is already in \<open>bought_list\<close>, a call of \<open>f\<close> sends no
  order, whatever the price data. Hence in a run of the script at most one order is
  sent per instrument, \<open>bought_list\<close> never holds an instrument twice (a call of \<open>f\<close>
  keeps a duplicate-free list duplicate-free), and calling \<open>f\<close> again on the same data
  right after a first call changes nothing: no order, no line, no new entry.
\<close>

theorem open_instrument_not_ordered_again:
  "(stock \<in> set (bought_list s) \<longrightarrow>
      filter (\<lambda>r. stock_code r = stock) (orders (state_of (f xt now data s))) =
      filter (\<lambda>r. stock_code r = stock) (orders s)) \<and>
   distinct (map stock_code (orders (loop_state (main_loop_state xt cr sr ts (initial sector))))) \<and>
   distinct (bought_list (loop_state (main_loop_state xt cr sr ts (initial sector)))) \<and>
   (distinct (bought_list s) \<longrightarrow> distinct (bought_list (state_of (f xt now data s)))) \<and>
   state_of (f xt2 now2 data (state_of (f xt now data s))) = state_of (f xt now data s)"
proof -
  obtain new where new:
    "state_of (f_for xt now data s) =
            s\<lparr>stdout := stdout s @ map (Buy_line now) new,
              orders := orders s @ map buy_order new,
              bought_list := bought_list s @ new\<rparr>"
    "distinct new" "set new \<inter> set (bought_list s) = {}"
    using f_for_effect [of xt now data s] by blast
  have a: "filter (\<lambda>r. stock_code r = stock) (orders (state_of (f xt now data s))) =
      filter (\<lambda>r. stock_code r = stock) (orders s)" if "stock \<in> set (bought_list s)"
  proof -
    have "stock \<notin> set new" using that new(3) by auto
    then show ?thesis
      by (simp add: f_def new(1) filter_buy_orders_absent)
  qed
  let ?r = "loop_state (main_loop_state xt cr sr ts (initial sector))"
  have "map stock_code (orders ?r) = bought_list ?r"
    by (simp only: script_run_linked(1) map_buy_order)
  then have b: "distinct (map stock_code (orders ?r))" "distinct (bought_list ?r)"
    using script_run_linked(2) [of xt cr sr ts sector] by simp_all
  have c: "distinct (bought_list (state_of (f xt now data s)))" if "distinct (bought_list s)"
    using that new by (auto simp: f_def)
  have d: "state_of (f xt2 now2 data (state_of (f xt now data s))) = state_of (f xt now data s)"
    unfolding f_def
    by (rule f_for_rerun [of _ s xt now data]) (simp_all add: f_for_hsa)
  from a b c d show ?thesis by blast
qed

theorem open_instrument_not_ordered_again_witness:
  "''600000.SH'' \<in> set (bought_list (state_of (f always_sent mid_session rising_data (initial code_list)))) \<and>
   orders (state_of (f always_sent mid_session rising_data (initial code_list))) = [buy_order ''600000.SH''] \<and>
   orders (state_of (f always_sent mid_session rising_data
              (state_of (f always_sent mid_session rising_data (initial code_list))))) =
     [buy_order ''600000.SH''] \<and>
   distinct (bought_list (state_of (f always_sent mid_session rising_data (initial code_list))))"
proof -
  have first: "state_of (f always_sent mid_session rising_data (initial code_list)) =
      (initial code_list)\<lparr>stdout := [Buy_line mid_session ''600000.SH''],
          orders := [buy_order ''600000.SH''], bought_list := [''600000.SH'']\<rparr>"
    by (simp add: f_def f_body_def iloc_def positional_def ratio_of_value rising_data_def
        rising_frame_def initial_def code_list_def)
  have d: "distinct (bought_list (initial code_list))" by (simp add: initial_def)
  show ?thesis
    using open_instrument_not_ordered_again [of "''600000.SH''"
        "state_of (f always_sent mid_session rising_data (initial code_list))"
        always_sent mid_session rising_data 0 0 "[]" code_list always_sent mid_session]
      open_instrument_not_ordered_again [of "''600000.SH''" "initial code_list"
        always_sent mid_session rising_data 0 0 "[]" code_list always_sent mid_session] d
    by (simp add: first)
qed

section \<open>The tradable universe\<close>

text \<open>
  Claim C10. \<open>f\<close> handles only the instruments of the delivered data that are in the
  universe \<open>A.hsa\<close>: the others are skipped (dropping them from the data changes nothing),
  and every order a call sends is for an instrument of the universe. So the
  open-position list stays within the universe: this holds when the module is loaded,
  and \<open>f\<close>, every callback, the polling loop and the script as a whole preserve it.
\<close>

theorem orders_within_universe:
  "f xt now data s = f xt now (filter (\<lambda>a. fst a \<in> set (hsa s)) data) s \<and>
   (\<exists>sent. orders (state_of (f xt now data s)) = orders s @ sent \<and>
           stock_code ` set sent \<subseteq> set (hsa s)) \<and>
   set (bought_list (initial sector)) \<subseteq> set (hsa (initial sector)) \<and>
   (set (bought_list s) \<subseteq> set (hsa s) \<longrightarrow>
      set (bought_list (state_of (f xt now data s))) \<subseteq> set (hsa (state_of (f xt now data s))) \<and>
      set (bought_list (deliver now p s)) \<subseteq> set (hsa (deliver now p s)) \<and>
      set (bought_list (loop_state (polling_loop xt ts s))) \<subseteq>
        set (hsa (loop_state (polling_loop xt ts s))) \<and>
      set (bought_list (loop_state (main_loop_state xt cr sr ts s))) \<subseteq>
        set (hsa (loop_state (main_loop_state xt cr sr ts s))))"
proof -
  have a: "f xt now data s = f xt now (filter (\<lambda>a. fst a \<in> set (hsa s)) data) s"
    unfolding f_def by (rule f_for_universe)
  obtain new where new:
    "state_of (f_for xt now data s) =
            s\<lparr>stdout := stdout s @ map (Buy_line now) new,
              orders := orders s @ map buy_order new,
              bought_list := bought_list s @ new\<rparr>"
    "set new \<subseteq> set (hsa s)"
    using f_for_effect [of xt now data s] by blast
  have "orders (state_of (f xt now data s)) = orders s @ map buy_order new"
    "stock_code ` set (map buy_order new) \<subseteq> set (hsa s)"
    using new by (auto simp: f_def)
  then have b: "\<exists>sent. orders (state_of (f xt now data s)) = orders s @ sent \<and>
           stock_code ` set sent \<subseteq> set (hsa s)"
    by blast
  have c: "set (bought_list (initial sector)) \<subseteq> set (hsa (initial sector))"
    by (simp add: initial_def)
  have d: "set (bought_list (state_of (f xt now data s))) \<subseteq> set (hsa (state_of (f xt now data s)))"
    "set (bought_list (deliver now p s)) \<subseteq> set (hsa (deliver now p s))"
    "set (bought_list (loop_state (polling_loop xt ts s))) \<subseteq>
        set (hsa (loop_state (polling_loop xt ts s)))"
    "set (bought_list (loop_state (main_loop_state xt cr sr ts s))) \<subseteq>
        set (hsa (loop_state (main_loop_state xt cr sr ts s)))"
    if "set (bought_list s) \<subseteq> set (hsa s)"
  proof -
    show "set (bought_list (state_of (f xt now data s))) \<subseteq> set (hsa (state_of (f xt now data s)))"
      unfolding f_def by (rule f_for_within_universe [OF that])
    show "set (bought_list (deliver now p s)) \<subseteq> set (hsa (deliver now p s))"
      using that by simp
    show "set (bought_list (loop_state (polling_loop xt ts s))) \<subseteq>
        set (hsa (loop_state (polling_loop xt ts s)))"
      by (rule polling_loop_within_universe [OF that])
    show "set (bought_list (loop_state (main_loop_state xt cr sr ts s))) \<subseteq>
        set (hsa (loop_state (main_loop_state xt cr sr ts s)))"
      unfolding main_loop_state_def
      by (rule polling_loop_within_universe) (simp add: that)
  qed
  from a b c d show ?thesis by blast
qed

theorem orders_within_universe_witness:
  "set (bought_list (initial [''600000.SH''])) \<subseteq> set (hsa (initial [''600000.SH''])) \<and>
   f always_sent mid_session [(''000001.SZ'', one_row_frame), (''600000.SH'', rising_frame)]
       (initial [''600000.SH'']) =
     f always_sent mid_session [(''600000.SH'', rising_frame)] (initial [''600000.SH'']) \<and>
   orders (state_of (f always_sent mid_session
       [(''000001.SZ'', one_row_frame), (''600000.SH'', rising_frame)] (initial [''600000.SH'']))) =
     [buy_order ''600000.SH''] \<and>
   set (bought_list (state_of (f always_sent mid_session
       [(''000001.SZ'', one_row_frame), (''600000.SH'', rising_frame)] (initial [''600000.SH''])))) \<subseteq>
     {''600000.SH''}"
proof -
  have run: "f always_sent mid_session [(''600000.SH'', rising_frame)] (initial [''600000.SH'']) =
      Returned ((initial [''600000.SH''])\<lparr>stdout := [Buy_line mid_session ''600000.SH''],
          orders := [buy_order ''600000.SH''], bought_list := [''600000.SH'']\<rparr>)"
    by (simp add: f_def f_body_def iloc_def positional_def ratio_of_value rising_frame_def initial_def)
  have sub: "set (bought_list (initial [''600000.SH''])) \<subseteq> set (hsa (initial [''600000.SH'']))"
    by (simp add: initial_def)
  have h: "hsa (initial [''600000.SH'']) = [''600000.SH'']" by (simp add: initial_def)
  show ?thesis
    using orders_within_universe [where xt = always_sent and now = mid_session
        and data = "[(''000001.SZ'', one_row_frame), (''600000.SH'', rising_frame)]"
        and s = "initial [''600000.SH'']" and sector = "[''600000.SH'']"
        and p = "Disconnected :: (unit, unit, unit) push" and ts = "[]" and cr = 0 and sr = 0] sub
    by (simp add: h run)
qed

section \<open>Totality of the decision function\<close>

lemma iloc_two_rows:
  assumes "2 \<le> length df" and "\<forall>r \<in> set df. snd r \<noteq> []"
  shows "\<exists>c. iloc df (- 1) 0 = Inr c" and "\<exists>p. iloc df (- 2) 0 = Inr p"
proof -
  have n: "nat (int (length df) + - 1) < length df" "nat (int (length df) + - 2) < length df"
    using assms(1) by linarith+
  then have "snd (df ! nat (int (length df) + - 1)) \<noteq> []" "snd (df ! nat (int (length df) + - 2)) \<noteq> []"
    using assms(2) by (auto simp: all_set_conv_all_nth)
  then show "\<exists>c. iloc df (- 1) 0 = Inr c" and "\<exists>p. iloc df (- 2) 0 = Inr p"
    using assms(1) by (auto simp: iloc_def positional_def)
qed

lemma iloc_short: "length df < 2 \<Longrightarrow> iloc df (- 1) 0 = Inl IndexError \<or> iloc df (- 2) 0 = Inl IndexError"
  by (auto simp: iloc_def positional_def)

lemma f_body_two_rows:
  assumes "2 \<le> length df" and "\<forall>r \<in> set df. snd r \<noteq> []"
  shows "\<exists>s'. f_body xt now stock df s = Returned s'"
  using iloc_two_rows [OF assms]
  unfolding f_body_def Let_def ratio_of_value
  by auto

lemma f_for_two_rows:
  assumes "\<forall>a \<in> set data. 2 \<le> length (snd a) \<and> (\<forall>r \<in> set (snd a). snd r \<noteq> [])"
  shows "error_of (f_for xt now data s) = None"
  using assms
proof (induction data arbitrary: s)
  case Nil
  show ?case by simp
next
  case (Cons a data)
  obtain stock df where a: "a = (stock, df)" by (cases a)
  have "2 \<le> length df" "\<forall>r \<in> set df. snd r \<noteq> []"
    using Cons.prems a by auto
  from f_body_two_rows [OF this] obtain s' where "f_body xt now stock df s = Returned s'"
    by blast
  then show ?case
    using Cons.IH [of s'] Cons.prems by (simp add: a)
qed

lemma f_body_short:
  assumes "stock \<in> set (hsa s)" and "length df < 2"
  shows "f_body xt now stock df s = Raised IndexError s"
  using assms iloc_short [OF assms(2)]
  unfolding f_body_def
  by (auto split: sum.splits dest: iloc_error)

lemma f_body_no_rise:
  assumes "iloc df (- 2) 0 = Inr pre_price" and "pre_price \<le> 0"
  shows "state_of (f_body xt now stock df s) = s"
  using assms
  unfolding f_body_def Let_def ratio_of_value
  by (auto split: sum.splits)

text \<open>
  Claim C9. On data in which every instrument's frame has at least two rows (each
  holding a price in its first column) \<open>f\<close> returns normally. It never divides by
  zero, on any data: for a previous price that is not positive the ratio is 0 without
  a division, and the pass for that instrument leaves the state as it is (no order).
  The two rows are needed: for an instrument of the universe whose frame has fewer
  than two rows, \<open>f\<close> raises \<open>IndexError\<close> when it comes to it.
\<close>

theorem f_total_on_two_rows:
  "((\<forall>a \<in> set data. 2 \<le> length (snd a) \<and> (\<forall>r \<in> set (snd a). snd r \<noteq> [])) \<longrightarrow>
      error_of (f xt now data s) = None) \<and>
   error_of (f xt now data s) \<noteq> Some ZeroDivisionError \<and>
   (pre_price \<le> 0 \<longrightarrow> ratio_of cuurent_price pre_price = Inr 0) \<and>
   (iloc df (- 2) 0 = Inr pre_price \<and> pre_price \<le> 0 \<longrightarrow>
      state_of (f_body xt now stock df s) = s) \<and>
   (stock \<in> set (hsa s) \<and> length df < 2 \<longrightarrow>
      f xt now ((stock, df) # rest) s = Raised IndexError s)"
proof -
  have a: "error_of (f xt now data s) = None"
    if "\<forall>a \<in> set data. 2 \<le> length (snd a) \<and> (\<forall>r \<in> set (snd a). snd r \<noteq> [])"
    unfolding f_def by (rule f_for_two_rows [OF that])
  have b: "error_of (f xt now data s) \<noteq> Some ZeroDivisionError"
    unfolding f_def using f_for_error [of xt now data s ZeroDivisionError] by auto
  have c: "ratio_of cuurent_price pre_price = Inr 0" if "pre_price \<le> 0"
    using that by (simp add: ratio_of_value)
  have d: "state_of (f_body xt now stock df s) = s"
    if "iloc df (- 2) 0 = Inr pre_price \<and> pre_price \<le> 0"
    using that f_body_no_rise by blast
  have e: "f xt now ((stock, df) # rest) s = Raised IndexError s"
    if "stock \<in> set (hsa s) \<and> length df < 2"
    using that by (simp add: f_def f_body_short)
  from a b c d e show ?thesis by blast
qed

theorem f_total_on_two_rows_witness:
  "error_of (f always_sent mid_session [(''600000.SH'', rising_frame), (''000001.SZ'', flat_frame)]
      (initial code_list)) = None \<and>
   ratio_of 11 0 = Inr 0 \<and>
   state_of (f_body always_sent mid_session ''600000.SH'' [(20240102, [0]), (20240103, [11])]
      (initial code_list)) = initial code_list \<and>
   f always_sent mid_session short_then_rising (initial code_list) =
      Raised IndexError (initial code_list)"
proof -
  have two: "\<forall>a \<in> set [(''600000.SH'', rising_frame), (''000001.SZ'', flat_frame)].
      2 \<le> length (snd a) \<and> (\<forall>r \<in> set (snd a). snd r \<noteq> [])"
    by (simp add: rising_frame_def flat_frame_def)
  have zero: "iloc [(20240102, [0]), (20240103, [11])] (- 2) 0 = Inr 0 \<and> (0::real) \<le> 0"
    by (simp add: iloc_def positional_def)
  have short: "''000001.SZ'' \<in> set (hsa (initial code_list)) \<and> length one_row_frame < 2"
    by (simp add: initial_def code_list_def one_row_frame_def)
  show ?thesis
    using f_total_on_two_rows [where data = "[(''600000.SH'', rising_frame), (''000001.SZ'', flat_frame)]"
        and xt = always_sent and now = mid_session and s = "initial code_list"
        and pre_price = 0 and cuurent_price = 11 and df = "[(20240102, [0]), (20240103, [11])]"
        and stock = "''600000.SH''" and rest = "[]"] two zero
      f_total_on_two_rows [where data = "[]" and xt = always_sent and now = mid_session
        and s = "initial code_list" and pre_price = 0 and cuurent_price = 11 and df = one_row_frame
        and stock = "''000001.SZ''" and rest = "[(''600000.SH'', rising_frame)]"] short
    by (simp add: short_then_rising_def)
qed

section \<open>A rise of ten percent\<close>

lemma count_list_once: "distinct xs \<Longrightarrow> x \<in> set xs \<Longrightarrow> count_list xs x = 1"
  by (induction xs) (auto simp: count_list_0_iff)

lemma f_body_rise:
  assumes "iloc df (- 2) 0 = Inr 10" and "iloc df (- 1) 0 = Inr 11" and "stock \<in> set (hsa s)"
  shows "\<exists>s'. f_body xt now stock df s = Returned s' \<and> stock \<in> set (bought_list s')"
  using assms
  unfolding f_body_def Let_def ratio_of_value
  by simp

text \<open>
  Claim C1, as stated, fails: \<open>f\<close> goes through the instruments in the order of the
  dictionary and stops at the first exception, so an instrument with the 10.00 / 11.00
  pair that comes after an instrument with a one-row frame is never looked at.
\<close>

theorem rise_not_reached:
  "(''600000.SH'', rising_frame) \<in> set short_then_rising \<and>
   iloc rising_frame (- 2) 0 = Inr 10 \<and>
   iloc rising_frame (- 1) 0 = Inr 11 \<and>
   ''600000.SH'' \<notin> set (bought_list (initial code_list)) \<and>
   ''600000.SH'' \<in> set (hsa (initial code_list)) \<and>
   f always_sent mid_session short_then_rising (initial code_list) =
     Raised IndexError (initial code_list) \<and>
   orders (state_of (f always_sent mid_session short_then_rising (initial code_list))) = [] \<and>
   bought_list (state_of (f always_sent mid_session short_then_rising (initial code_list))) = []"
  by (simp add: short_then_rising_def rising_frame_def one_row_frame_def initial_def code_list_def
      f_def f_body_def iloc_def positional_def)

text \<open>
  Claim C1, amended. Let an instrument of the data have the previous close 10.00 and
  the current close 11.00, be in the universe and not in \<open>bought_list\<close>, and let \<open>f\<close>
  raise no exception on the instruments that come before it in the data. Then one
  call of \<open>f\<close> sends exactly one order for that instrument, a buy of 100 shares at the
  latest price with the instrument as remark, and appends the instrument (once) to
  \<open>bought_list\<close>.
\<close>

theorem rise_is_bought_once:
  assumes "data = pre @ (stock, df) # post"
    and "error_of (f xt now pre s) = None"
    and "iloc df (- 2) 0 = Inr 10" and "iloc df (- 1) 0 = Inr 11"
    and "stock \<notin> set (bought_list s)" and "stock \<in> set (hsa s)"
  shows "filter (\<lambda>r. stock_code r = stock) (orders (state_of (f xt now data s))) =
           filter (\<lambda>r. stock_code r = stock) (orders s) @
           [\<lparr>account = acc, stock_code = stock, order_type = STOCK_BUY, order_volume = 100,
             price_type = LATEST_PRICE, price = - 1, strategy_name = ''strategy_name'',
             order_remark = stock\<rparr>] \<and>
         (\<exists>new. bought_list (state_of (f xt now data s)) = bought_list s @ new \<and>
                count_list new stock = 1)"
proof -
  obtain s1 where s1: "f_for xt now pre s = Returned s1"
    using assms(2) by (cases "f_for xt now pre s") (simp_all add: f_def)
  have "hsa s1 = hsa s"
    using f_for_hsa [of xt now pre s] by (simp add: s1)
  then obtain s2 where s2: "f_body xt now stock df s1 = Returned s2" "stock \<in> set (bought_list s2)"
    using f_body_rise [OF assms(3,4), of stock s1 xt now] assms(6) by auto
  have "f_for xt now data s = f_for xt now post s2"
    by (simp add: assms(1) f_for_append s1 s2(1))
  then have reached: "stock \<in> set (bought_list (state_of (f_for xt now data s)))"
    using f_for_bought_mono [of s2 xt now post] s2(2) by auto
  obtain new where new:
    "state_of (f_for xt now data s) =
            s\<lparr>stdout := stdout s @ map (Buy_line now) new,
              orders := orders s @ map buy_order new,
              bought_list := bought_list s @ new\<rparr>"
    "distinct new"
    using f_for_effect [of xt now data s] by blast
  have mem: "stock \<in> set new"
    using reached assms(5) by (simp add: new(1))
  have "filter (\<lambda>r. stock_code r = stock) (orders (state_of (f xt now data s))) =
           filter (\<lambda>r. stock_code r = stock) (orders s) @ [buy_order stock]"
    by (simp add: f_def new(1) filter_buy_orders_once [OF new(2) mem])
  moreover have "bought_list (state_of (f xt now data s)) = bought_list s @ new"
    by (simp add: f_def new(1))
  moreover have "count_list new stock = 1"
    by (rule count_list_once [OF new(2) mem])
  ultimately show ?thesis
    unfolding buy_order_def by blast
qed

theorem rise_is_bought_once_witness:
  "error_of (f always_sent mid_session [(''000001.SZ'', flat_frame)] (initial code_list)) = None \<and>
   iloc rising_frame (- 2) 0 = Inr 10 \<and> iloc rising_frame (- 1) 0 = Inr 11 \<and>
   ''600000.SH'' \<notin> set (bought_list (initial code_list)) \<and>
   ''600000.SH'' \<in> set (hsa (initial code_list)) \<and>
   filter (\<lambda>r. stock_code r = ''600000.SH'')
     (orders (state_of (f always_sent mid_session
        [(''000001.SZ'', flat_frame), (''600000.SH'', rising_frame)] (initial code_list)))) =
     [\<lparr>account = acc, stock_code = ''600000.SH'', order_type = STOCK_BUY, order_volume = 100,
       price_type = LATEST_PRICE, price = - 1, strategy_name = ''strategy_name'',
       order_remark = ''600000.SH''\<rparr>]"
proof -
  have a: "error_of (f always_sent mid_session [(''000001.SZ'', flat_frame)] (initial code_list)) = None"
    by (simp add: flat_frame_def initial_def code_list_def f_def f_body_def iloc_def positional_def
        ratio_of_value)
  have b: "iloc rising_frame (- 2) 0 = Inr 10" "iloc rising_frame (- 1) 0 = Inr 11"
    by (simp_all add: rising_frame_def iloc_def positional_def)
  have c: "''600000.SH'' \<notin> set (bought_list (initial code_list))"
    "''600000.SH'' \<in> set (hsa (initial code_list))"
    by (simp_all add: initial_def code_list_def)
  have d: "orders (initial code_list) = []" by (simp add: initial_def)
  show ?thesis
    using rise_is_bought_once [where pre = "[(''000001.SZ'', flat_frame)]" and post = "[]"
        and stock = "''600000.SH''" and df = rising_frame and xt = always_sent
        and now = mid_session and s = "initial code_list", OF refl a b c] a b c
    by (simp add: d)
qed

section \<open>When an instrument is marked open\<close>

text \<open>
  Claim C5, as stated, fails: with a broker that reports every request as failed (the
  call returns \<open>-1\<close>), and with no callback delivered (the only line printed is the one
  \<open>f\<close> prints itself), the instrument is in \<open>bought_list\<close> when \<open>f\<close> returns.
\<close>

theorem marked_open_without_confirmation:
  "never_sent (buy_order ''600000.SH'') = - 1 \<and>
   bought_list (initial code_list) = [] \<and>
   f never_sent mid_session rising_data (initial code_list) =
     Returned ((initial code_list)\<lparr>stdout := [Buy_line mid_session ''600000.SH''],
        orders := [buy_order ''600000.SH''], bought_list := [''600000.SH'']\<rparr>)"
  by (simp add: never_sent_def rising_data_def rising_frame_def initial_def code_list_def
      f_def f_body_def iloc_def positional_def ratio_of_value)

text \<open>
  Claim C5, amended. \<open>f\<close> appends an instrument to \<open>bought_list\<close> in the same pass in
  which it hands the order request to the broker, right after the call returns and
  whatever the call returned: the result of \<open>f\<close> does not depend on the broker's
  answers, and the instruments a call appends are exactly the instruments of the
  requests it issued, in the same order.
\<close>

theorem marked_open_with_the_request:
  "f xt now data s = f xt' now data s \<and>
   (\<exists>new. bought_list (state_of (f xt now data s)) = bought_list s @ new \<and>
          orders (state_of (f xt now data s)) = orders s @ map buy_order new)"
proof -
  obtain new where "state_of (f_for xt now data s) =
            s\<lparr>stdout := stdout s @ map (Buy_line now) new,
              orders := orders s @ map buy_order new,
              bought_list := bought_list s @ new\<rparr>"
    using f_for_effect [of xt now data s] by blast
  then have "bought_list (state_of (f xt now data s)) = bought_list s @ new \<and>
          orders (state_of (f xt now data s)) = orders s @ map buy_order new"
    by (simp add: f_def)
  then show ?thesis
    using f_for_broker [of xt now data s xt'] by (auto simp: f_def)
qed

section \<open>The order of the rows\<close>

text \<open>
  Claim C6, as stated, fails: a frame whose index labels decrease is processed like any
  other. No exception is raised, and the order is sent.
\<close>

theorem unordered_rows_processed:
  "\<not> sorted (map fst unordered_frame) \<and>
   f always_sent mid_session unordered_data (initial code_list) =
     Returned ((initial code_list)\<lparr>stdout := [Buy_line mid_session ''600000.SH''],
        orders := [buy_order ''600000.SH''], bought_list := [''600000.SH'']\<rparr>)"
  by (simp add: unordered_data_def unordered_frame_def initial_def code_list_def
      f_def f_body_def iloc_def positional_def ratio_of_value)

text \<open>
  Claim C6, amended. \<open>f\<close> does not look at the index labels (timestamps) of the rows:
  two dictionaries with the same instruments and, row by row, the same column values
  give the same result, whatever their labels. The rows are taken by position, the
  last one as current and the one before as previous. The only exception \<open>f\<close> raises
  is \<open>IndexError\<close>.
\<close>

theorem index_labels_ignored:
  "(list_all2 (\<lambda>a b. fst a = fst b \<and> map snd (snd a) = map snd (snd b)) data data' \<longrightarrow>
      f xt now data s = f xt now data' s) \<and>
   error_of (f xt now data s) \<in> {None, Some IndexError}"
proof -
  have "error_of (f xt now data s) \<in> {None, Some IndexError}"
    using f_for_error [of xt now data s] by (cases "error_of (f_for xt now data s)") (auto simp: f_def)
  then show ?thesis
    by (auto simp: f_def dest: f_for_labels)
qed

theorem index_labels_ignored_witness:
  "list_all2 (\<lambda>a b. fst a = fst b \<and> map snd (snd a) = map snd (snd b)) unordered_data rising_data \<and>
   f always_sent mid_session unordered_data (initial code_list) =
   f always_sent mid_session rising_data (initial code_list)"
proof -
  have "list_all2 (\<lambda>a b. fst a = fst b \<and> map snd (snd a) = map snd (snd b)) unordered_data rising_data"
    by (simp add: unordered_data_def rising_data_def unordered_frame_def rising_frame_def)
  then show ?thesis
    using index_labels_ignored [of unordered_data rising_data always_sent mid_session "initial code_list"]
    by simp
qed

section \<open>The end of the script\<close>

text \<open>
  Claim C8, as stated, fails: when the clock is outside the window the loop is left,
  and the script then calls \<open>xt_trader.run_forever()\<close>, which does not return. The
  process does not end, with status 0 or any other.
\<close>

theorem window_exit_does_not_end_the_process:
  "polling_loop always_sent [closing_turn] (initial code_list) =
     Loop_exited ((initial code_list)\<lparr>stdout := [Window_closed_line after_close]\<rparr>) \<and>
   main always_sent 0 0 [closing_turn] (initial code_list) = Never_exits \<and>
   main always_sent 0 0 [closing_turn] (initial code_list) \<noteq> Exit_status 0"
proof -
  have "\<not> in_window (strftime_HMS after_close)"
    by (simp add: in_window_seconds valid_datetime_def seconds_of_day_def after_close_def)
  then show ?thesis
    by (simp add: main_def main_loop_state_def closing_turn_def run_forever_never
        print_line_def initial_def)
qed

text \<open>
  Claim C8, amended. When the polling loop is left because the clock is outside the
  trading window, the script goes on to \<open>xt_trader.run_forever()\<close> and stays there: the
  process does not terminate. On no input does the script end with exit status 0.
\<close>

theorem window_exit_blocks:
  "(main_loop_state xt cr sr ts s = Loop_exited s' \<longrightarrow> main xt cr sr ts s = Never_exits) \<and>
   main xt cr sr ts s \<noteq> Exit_status 0"
  by (simp add: main_def run_forever_never split: loop_result.splits)

theorem window_exit_blocks_witness:
  "main_loop_state always_sent 0 0 [trading_turn, closing_turn] (initial code_list) =
     Loop_exited ((initial code_list)\<lparr>
        stdout := [Start_line, Connect_line 0, Subscribe_line 0,
                   Buy_line mid_session ''600000.SH'', Window_closed_line after_close],
        orders := [buy_order ''600000.SH''], bought_list := [''600000.SH''],
        fetches := 1, slept := 3\<rparr>) \<and>
   main always_sent 0 0 [trading_turn, closing_turn] (initial code_list) = Never_exits"
proof -
  have w: "in_window (strftime_HMS mid_session)" "\<not> in_window (strftime_HMS after_close)"
    by (simp_all add: in_window_seconds valid_datetime_def seconds_of_day_def mid_session_def after_close_def)
  have "main_loop_state always_sent 0 0 [trading_turn, closing_turn] (initial code_list) =
     Loop_exited ((initial code_list)\<lparr>
        stdout := [Start_line, Connect_line 0, Subscribe_line 0,
                   Buy_line mid_session ''600000.SH'', Window_closed_line after_close],
        orders := [buy_order ''600000.SH''], bought_list := [''600000.SH''],
        fetches := 1, slept := 3\<rparr>)"
    using w
    by (simp add: main_loop_state_def trading_turn_def closing_turn_def f_def f_body_def
        iloc_def positional_def ratio_of_value rising_frame_def initial_def code_list_def print_line_def)
  then show ?thesis
    using window_exit_blocks [of always_sent 0 0 "[trading_turn, closing_turn]" "initial code_list"]
    by simp
qed

end
